theory Spec2Isabelle
  imports Complex_Main "HOL-Library.Word"
begin

section \<open>JavaScript values used by the audio code\<close>

text \<open>
  A JavaScript \<open>number\<close> is a double: a finite value, one of the two infinities, or NaN.
  The audio code only compares numbers and stores them, so a finite double is embedded as
  the real it denotes. The two zeros are one value: no comparison in the code tells them
  apart.
\<close>

datatype number = NaN | NegInf | Fin real | PosInf

fun isFinite :: "number \<Rightarrow> bool" where
  "isFinite (Fin _) = True"
| "isFinite _ = False"

text \<open>\<open>Math.min\<close> and \<open>Math.max\<close> of two arguments: NaN if either argument is NaN.\<close>

fun Math_min :: "number \<Rightarrow> number \<Rightarrow> number" where
  "Math_min NaN _ = NaN"
| "Math_min _ NaN = NaN"
| "Math_min NegInf _ = NegInf"
| "Math_min _ NegInf = NegInf"
| "Math_min PosInf b = b"
| "Math_min a PosInf = a"
| "Math_min (Fin x) (Fin y) = Fin (min x y)"

fun Math_max :: "number \<Rightarrow> number \<Rightarrow> number" where
  "Math_max NaN _ = NaN"
| "Math_max _ NaN = NaN"
| "Math_max PosInf _ = PosInf"
| "Math_max _ PosInf = PosInf"
| "Math_max NegInf b = b"
| "Math_max a NegInf = a"
| "Math_max (Fin x) (Fin y) = Fin (max x y)"

text \<open>\<open>x || 0\<close> on a number: the falsy numbers are 0 and NaN.\<close>

definition or_zero :: "number \<Rightarrow> number" where
  "or_zero x = (if x = NaN \<or> x = Fin 0 then Fin 0 else x)"

text \<open>The closed interval [0,1] on numbers; NaN and the infinities are outside.\<close>

fun in_unit_interval :: "number \<Rightarrow> bool" where
  "in_unit_interval (Fin x) = (0 \<le> x \<and> x \<le> 1)"
| "in_unit_interval _ = False"

text \<open>Unary minus.\<close>

fun negate :: "number \<Rightarrow> number" where
  "negate NaN = NaN"
| "negate NegInf = PosInf"
| "negate PosInf = NegInf"
| "negate (Fin x) = Fin (- x)"

text \<open>
  Exceptions and promise rejection reasons. \<open>DOMException\<close> carries the exception's name.
\<close>

datatype js_error = Error string | TypeError | DOMException string

text \<open>
  A handler either returns or throws. A JavaScript throw does not undo the assignments
  made before it, so both outcomes carry the state reached.
\<close>

datatype 's outcome = Returned 's | Threw js_error 's

fun after :: "'s outcome \<Rightarrow> 's" where
  "after (Returned s) = s"
| "after (Threw _ s) = s"

text \<open>A string is truthy when it is present and not empty.\<close>

fun truthy :: "string option \<Rightarrow> bool" where
  "truthy None = False"
| "truthy (Some s) = (s \<noteq> [])"

section \<open>The media element\<close>

text \<open>
  The attributes of \<open>HTMLAudioElement\<close> that the code reads or writes, and a count of
  the calls of \<open>load()\<close>.
\<close>

record HTMLAudioElement =
  src :: string
  paused :: bool
  el_currentTime :: number
  el_duration :: number
  el_volume :: number
  loadCalls :: nat

text \<open>\<open>new Audio()\<close>.\<close>

definition newAudio :: HTMLAudioElement where
  "newAudio = \<lparr>src = [], paused = True, el_currentTime = Fin 0, el_duration = NaN,
     el_volume = Fin 1, loadCalls = 0\<rparr>"

text \<open>
  The media element load algorithm stops playback and rewinds: it runs when \<open>src\<close> is
  assigned and when \<open>load()\<close> is called.
\<close>

definition load_algorithm :: "HTMLAudioElement \<Rightarrow> HTMLAudioElement" where
  "load_algorithm a = a\<lparr>paused := True, el_currentTime := Fin 0, el_duration := NaN\<rparr>"

definition set_src :: "string \<Rightarrow> HTMLAudioElement \<Rightarrow> HTMLAudioElement" where
  "set_src url a = load_algorithm (a\<lparr>src := url\<rparr>)"

definition load :: "HTMLAudioElement \<Rightarrow> HTMLAudioElement" where
  "load a = load_algorithm (a\<lparr>loadCalls := loadCalls a + 1\<rparr>)"

definition pause :: "HTMLAudioElement \<Rightarrow> HTMLAudioElement" where
  "pause a = a\<lparr>paused := True\<rparr>"

text \<open>
  \<open>play()\<close> returns a promise. Whether it is fulfilled or rejected is decided by the
  browser (autoplay policy, an unsupported source), so it is an input of the model. A
  fulfilled promise means the element is playing; a rejected one leaves it as it was.
\<close>

datatype promise = Fulfilled | Rejected js_error

definition play :: "promise \<Rightarrow> HTMLAudioElement \<Rightarrow> HTMLAudioElement" where
  "play pr a = (case pr of Fulfilled \<Rightarrow> a\<lparr>paused := False\<rparr> | Rejected _ \<Rightarrow> a)"

text \<open>
  The setters of \<open>currentTime\<close> and \<open>volume\<close> take a restricted double: a value that is
  not finite throws a TypeError, and a volume outside [0,1] throws an IndexSizeError.
\<close>

definition set_currentTime :: "number \<Rightarrow> HTMLAudioElement \<Rightarrow> js_error + HTMLAudioElement" where
  "set_currentTime t a = (if \<not> isFinite t then Inl TypeError else Inr (a\<lparr>el_currentTime := t\<rparr>))"

definition set_volume :: "number \<Rightarrow> HTMLAudioElement \<Rightarrow> js_error + HTMLAudioElement" where
  "set_volume v a =
     (if \<not> isFinite v then Inl TypeError
      else if \<not> in_unit_interval v then Inl (DOMException ''IndexSizeError'')
      else Inr (a\<lparr>el_volume := v\<rparr>))"

section \<open>AudioContext.tsx\<close>

record AudioState =
  currentlyPlayingId :: "string option"
  currentlyPlayingUrl :: "string option"
  isPlaying :: bool
  currentTime :: number
  duration :: number
  volume :: number

text \<open>
  The provider: the React state, the ref to the media element (null until the mount
  effect has run) and the lines written by \<open>console.error\<close>. Each operation below is one
  call of the callback of the current render, so the \<open>state\<close> it closes over is the
  current state.
\<close>

record AudioProvider =
  state :: AudioState
  audioRef :: "HTMLAudioElement option"
  console_error :: "(string \<times> js_error) list"

definition initialState :: AudioState where
  "initialState = \<lparr>currentlyPlayingId = None, currentlyPlayingUrl = None, isPlaying = False,
     currentTime = Fin 0, duration = Fin 0, volume = Fin (7 / 10)\<rparr>"

definition initialProvider :: AudioProvider where
  "initialProvider = \<lparr>state = initialState, audioRef = None, console_error = []\<rparr>"

text \<open>The mount effect: create the element once and give it the state's volume.\<close>

definition mountEffect :: "AudioProvider \<Rightarrow> AudioProvider outcome" where
  "mountEffect p =
     (case audioRef p of
        Some _ \<Rightarrow> Returned p
      | None \<Rightarrow>
          (case set_volume (volume (state p)) newAudio of
             Inl e \<Rightarrow> Threw e (p\<lparr>audioRef := Some newAudio\<rparr>)
           | Inr a \<Rightarrow> Returned (p\<lparr>audioRef := Some a\<rparr>)))"

text \<open>The listeners registered by the mount effect; they read the element.\<close>

definition handleTimeUpdate :: "AudioProvider \<Rightarrow> AudioProvider" where
  "handleTimeUpdate p =
     (case audioRef p of
        None \<Rightarrow> p
      | Some audio \<Rightarrow> p\<lparr>state := (state p)\<lparr>currentTime := el_currentTime audio\<rparr>\<rparr>)"

definition handleDurationChange :: "AudioProvider \<Rightarrow> AudioProvider" where
  "handleDurationChange p =
     (case audioRef p of
        None \<Rightarrow> p
      | Some audio \<Rightarrow> p\<lparr>state := (state p)\<lparr>duration := or_zero (el_duration audio)\<rparr>\<rparr>)"

definition handleEnded :: "AudioProvider \<Rightarrow> AudioProvider" where
  "handleEnded p =
     (case audioRef p of
        None \<Rightarrow> p
      | Some _ \<Rightarrow> p\<lparr>state := (state p)\<lparr>isPlaying := False, currentTime := Fin 0,
            currentlyPlayingId := None, currentlyPlayingUrl := None\<rparr>\<rparr>)"

definition handlePlay :: "AudioProvider \<Rightarrow> AudioProvider" where
  "handlePlay p =
     (case audioRef p of
        None \<Rightarrow> p
      | Some _ \<Rightarrow> p\<lparr>state := (state p)\<lparr>isPlaying := True\<rparr>\<rparr>)"

definition handlePause :: "AudioProvider \<Rightarrow> AudioProvider" where
  "handlePause p =
     (case audioRef p of
        None \<Rightarrow> p
      | Some _ \<Rightarrow> p\<lparr>state := (state p)\<lparr>isPlaying := False\<rparr>\<rparr>)"

text \<open>
  \<open>playAudio\<close>: the first argument is the fate of the promise that \<open>audio.play()\<close>
  returns. The \<open>catch\<close> handler logs the rejection reason and nothing else.
\<close>

definition playAudio :: "promise \<Rightarrow> string \<Rightarrow> string \<Rightarrow> AudioProvider \<Rightarrow> AudioProvider outcome" where
  "playAudio pr id' url p =
     (case audioRef p of
        None \<Rightarrow> Returned p
      | Some audio \<Rightarrow>
          (let audio1 = (if currentlyPlayingUrl (state p) \<noteq> Some url
                         then load (set_src url audio) else audio);
               audio2 = play pr audio1;
               log = (case pr of
                        Fulfilled \<Rightarrow> console_error p
                      | Rejected err \<Rightarrow> console_error p @ [(''Failed to play audio:'', err)])
           in Returned (p\<lparr>audioRef := Some audio2, console_error := log,
                state := (state p)\<lparr>currentlyPlayingId := Some id',
                  currentlyPlayingUrl := Some url, isPlaying := True\<rparr>\<rparr>)))"

definition pauseAudio :: "AudioProvider \<Rightarrow> AudioProvider outcome" where
  "pauseAudio p =
     (case audioRef p of
        None \<Rightarrow> Returned p
      | Some audio \<Rightarrow>
          Returned (p\<lparr>audioRef := Some (pause audio),
            state := (state p)\<lparr>isPlaying := False\<rparr>\<rparr>))"

definition stopAudio :: "AudioProvider \<Rightarrow> AudioProvider outcome" where
  "stopAudio p =
     (case audioRef p of
        None \<Rightarrow> Returned p
      | Some audio \<Rightarrow>
          (case set_currentTime (Fin 0) (pause audio) of
             Inl e \<Rightarrow> Threw e (p\<lparr>audioRef := Some (pause audio)\<rparr>)
           | Inr audio' \<Rightarrow>
               Returned (p\<lparr>audioRef := Some audio',
                 state := (state p)\<lparr>isPlaying := False, currentTime := Fin 0,
                   currentlyPlayingId := None, currentlyPlayingUrl := None\<rparr>\<rparr>)))"

definition togglePlayPause :: "promise \<Rightarrow> string \<Rightarrow> string \<Rightarrow> AudioProvider \<Rightarrow> AudioProvider outcome" where
  "togglePlayPause pr id' url p =
     (if currentlyPlayingId (state p) = Some id' \<and> isPlaying (state p)
      then pauseAudio p
      else playAudio pr id' url p)"

definition seekTo :: "number \<Rightarrow> AudioProvider \<Rightarrow> AudioProvider outcome" where
  "seekTo time p =
     (case audioRef p of
        None \<Rightarrow> Returned p
      | Some audio \<Rightarrow>
          (case set_currentTime time audio of
             Inl e \<Rightarrow> Threw e p
           | Inr audio' \<Rightarrow>
               Returned (p\<lparr>audioRef := Some audio',
                 state := (state p)\<lparr>currentTime := time\<rparr>\<rparr>)))"

definition setVolume :: "number \<Rightarrow> AudioProvider \<Rightarrow> AudioProvider outcome" where
  "setVolume v p =
     (case audioRef p of
        None \<Rightarrow> Returned p
      | Some audio \<Rightarrow>
          (let clampedVolume = Math_max (Fin 0) (Math_min (Fin 1) v)
           in case set_volume clampedVolume audio of
                Inl e \<Rightarrow> Threw e p
              | Inr audio' \<Rightarrow>
                  Returned (p\<lparr>audioRef := Some audio',
                    state := (state p)\<lparr>volume := clampedVolume\<rparr>\<rparr>)))"

definition isCurrentlyPlaying :: "AudioProvider \<Rightarrow> string \<Rightarrow> bool" where
  "isCurrentlyPlaying p id' = (currentlyPlayingId (state p) = Some id' \<and> isPlaying (state p))"

text \<open>
  \<open>useAudio\<close> reads the context: null outside a provider, the provider's value inside.
\<close>

definition useAudio :: "AudioProvider option \<Rightarrow> js_error + AudioProvider" where
  "useAudio context =
     (case context of
        None \<Rightarrow> Inl (Error ''useAudio must be used within an AudioProvider'')
      | Some c \<Rightarrow> Inr c)"

text \<open>The values \<open>useAudioPlayer\<close> derives; its callbacks follow as functions of their own.\<close>

record AudioPlayer =
  pl_isPlaying :: bool
  pl_isActive :: bool
  pl_currentTime :: number
  pl_duration :: number

definition useAudioPlayer :: "AudioProvider option \<Rightarrow> string \<Rightarrow> string option \<Rightarrow> js_error + AudioPlayer" where
  "useAudioPlayer context id' url =
     (case useAudio context of
        Inl e \<Rightarrow> Inl e
      | Inr audio \<Rightarrow>
          (let isPlaying' = isCurrentlyPlaying audio id';
               isActive = (currentlyPlayingId (state audio) = Some id')
           in Inr \<lparr>pl_isPlaying = isPlaying', pl_isActive = isActive,
                pl_currentTime = (if isActive then currentTime (state audio) else Fin 0),
                pl_duration = (if isActive then duration (state audio) else Fin 0)\<rparr>))"

definition player_play :: "promise \<Rightarrow> string \<Rightarrow> string option \<Rightarrow> AudioProvider \<Rightarrow> AudioProvider outcome" where
  "player_play pr id' url audio =
     (if truthy url then playAudio pr id' (the url) audio else Returned audio)"

definition player_pause :: "AudioProvider \<Rightarrow> AudioProvider outcome" where
  "player_pause audio = pauseAudio audio"

definition player_toggle :: "promise \<Rightarrow> string \<Rightarrow> string option \<Rightarrow> AudioProvider \<Rightarrow> AudioProvider outcome" where
  "player_toggle pr id' url audio =
     (if truthy url then togglePlayPause pr id' (the url) audio else Returned audio)"

text \<open>
  The states the provider can be in: the first render, then any sequence of the mount
  effect, the six operations, the five listeners, and the element's own progress
  (its position and duration change while it plays).
\<close>

definition mediaProgress :: "number \<Rightarrow> number \<Rightarrow> AudioProvider \<Rightarrow> AudioProvider" where
  "mediaProgress t d p =
     (case audioRef p of
        None \<Rightarrow> p
      | Some audio \<Rightarrow> p\<lparr>audioRef := Some (audio\<lparr>el_currentTime := t, el_duration := d\<rparr>)\<rparr>)"

inductive reachable :: "AudioProvider \<Rightarrow> bool" where
  r_init: "reachable initialProvider"
| r_mount: "reachable p \<Longrightarrow> reachable (after (mountEffect p))"
| r_playAudio: "reachable p \<Longrightarrow> reachable (after (playAudio pr id' url p))"
| r_pauseAudio: "reachable p \<Longrightarrow> reachable (after (pauseAudio p))"
| r_stopAudio: "reachable p \<Longrightarrow> reachable (after (stopAudio p))"
| r_togglePlayPause: "reachable p \<Longrightarrow> reachable (after (togglePlayPause pr id' url p))"
| r_seekTo: "reachable p \<Longrightarrow> reachable (after (seekTo t p))"
| r_setVolume: "reachable p \<Longrightarrow> reachable (after (setVolume v p))"
| r_timeupdate: "reachable p \<Longrightarrow> reachable (handleTimeUpdate p)"
| r_durationchange: "reachable p \<Longrightarrow> reachable (handleDurationChange p)"
| r_ended: "reachable p \<Longrightarrow> reachable (handleEnded p)"
| r_play: "reachable p \<Longrightarrow> reachable (handlePlay p)"
| r_pause: "reachable p \<Longrightarrow> reachable (handlePause p)"
| r_progress: "reachable p \<Longrightarrow> reachable (mediaProgress t d p)"

section \<open>Strings: \<open>trim\<close>, \<open>parseFloat\<close>, template literals\<close>

text \<open>
  The text a user types and the value of a form control are JavaScript strings: lists of
  UTF-16 code units. \<open>js\<close> writes an ASCII literal as such a list. Identifiers, URLs and
  messages, which the code only builds, copies and compares, stay \<open>string\<close>s.
\<close>

type_synonym code_unit = "16 word"

type_synonym js_string = "code_unit list"

definition cu :: "char \<Rightarrow> code_unit" where
  "cu c = of_char c"

definition js :: "string \<Rightarrow> js_string" where
  "js s = map cu s"

text \<open>
  The white space and line terminators of ECMAScript, which \<open>trim\<close> strips and
  \<open>parseFloat\<close> skips: tab, line feed, vertical tab, form feed, carriage return, space,
  no-break space, U+1680, U+2000 to U+200A, U+2028, U+2029, U+202F, U+205F, U+3000 and
  U+FEFF. Each is one code unit.
\<close>

definition isWhiteSpace :: "code_unit \<Rightarrow> bool" where
  "isWhiteSpace c = (c \<in> {0x0009, 0x000A, 0x000B, 0x000C, 0x000D, 0x0020, 0x00A0, 0x1680,
     0x2000, 0x2001, 0x2002, 0x2003, 0x2004, 0x2005, 0x2006, 0x2007, 0x2008, 0x2009, 0x200A,
     0x2028, 0x2029, 0x202F, 0x205F, 0x3000, 0xFEFF})"

definition trim :: "js_string \<Rightarrow> js_string" where
  "trim s = rev (dropWhile isWhiteSpace (rev (dropWhile isWhiteSpace s)))"

definition isDigit :: "code_unit \<Rightarrow> bool" where
  "isDigit c = (0x30 \<le> c \<and> c \<le> 0x39)"

definition digitValue :: "code_unit \<Rightarrow> nat" where
  "digitValue c = unat c - 48"

definition digitsValue :: "js_string \<Rightarrow> nat" where
  "digitsValue ds = foldl (\<lambda>acc c. 10 * acc + digitValue c) 0 ds"

text \<open>The exponent part \<open>e\<close>, \<open>e+\<close> or \<open>e-\<close> followed by digits; 0 when there is none.\<close>

definition parseExponent :: "js_string \<Rightarrow> int" where
  "parseExponent r =
     (case r of
        [] \<Rightarrow> 0
      | c # r1 \<Rightarrow>
          if c = cu CHR ''e'' \<or> c = cu CHR ''E'' then
            (case r1 of
               [] \<Rightarrow> 0
             | sg # r2 \<Rightarrow>
                 if sg = cu CHR ''-'' then - int (digitsValue (takeWhile isDigit r2))
                 else if sg = cu CHR ''+'' then int (digitsValue (takeWhile isDigit r2))
                 else int (digitsValue (takeWhile isDigit r1)))
          else 0)"

text \<open>
  What \<open>parseFloat\<close> reads: after the leading white space, the longest prefix that is a
  decimal literal. A decimal literal is kept as its sign, its digits \<open>m\<close> and its power
  of ten \<open>k\<close>: its value is \<open>m\<close> times 10 to the \<open>k\<close>.
\<close>

datatype decimal_literal = NoLiteral | InfinityLiteral bool | DecimalLiteral bool nat int

definition StrDecimalLiteral :: "js_string \<Rightarrow> decimal_literal" where
  "StrDecimalLiteral s =
     (let t = dropWhile isWhiteSpace s;
          neg = (t \<noteq> [] \<and> hd t = cu CHR ''-'');
          u = (if t \<noteq> [] \<and> (hd t = cu CHR ''-'' \<or> hd t = cu CHR ''+'') then tl t else t)
      in if take 8 u = js ''Infinity'' then InfinityLiteral neg
         else
           (let ip = takeWhile isDigit u;
                r1 = dropWhile isDigit u;
                dot = (r1 \<noteq> [] \<and> hd r1 = cu CHR ''.'');
                fp = (if dot then takeWhile isDigit (tl r1) else []);
                r2 = (if dot then dropWhile isDigit (tl r1) else r1)
            in if ip = [] \<and> fp = [] then NoLiteral
               else DecimalLiteral neg (digitsValue (ip @ fp))
                      (parseExponent r2 - int (length fp))))"


text \<open>
  The double nearest to the fraction \<open>n / d\<close>, ties to the even significand: 53
  significant bits from the binary exponent \<open>e\<close> down, nothing below 2 to the -1074 (the
  subnormal doubles), and infinity from 2 to the 1024 on.
\<close>

fun bitLength :: "nat \<Rightarrow> nat" where
  "bitLength n = (if n = 0 then 0 else Suc (bitLength (n div 2)))"

declare bitLength.simps [simp del]

definition roundHalfEven :: "nat \<Rightarrow> nat \<Rightarrow> nat" where
  "roundHalfEven a b =
     (let q = a div b; r = a mod b
      in if 2 * r < b then q else if b < 2 * r then q + 1 else if even q then q else q + 1)"

definition toDouble :: "nat \<Rightarrow> nat \<Rightarrow> number" where
  "toDouble n d =
     (if n = 0 then Fin 0
      else
        (let e0 = int (bitLength n) - int (bitLength d);
             e = (if (if 0 \<le> e0 then d * 2 ^ nat e0 \<le> n else d \<le> n * 2 ^ nat (- e0))
                  then e0 else e0 - 1);
             s = 52 - max e (- 1022);
             q = (if 0 \<le> s then roundHalfEven (n * 2 ^ nat s) d
                  else roundHalfEven n (d * 2 ^ nat (- s)));
             v = (if 0 \<le> s then real q / 2 ^ nat s else real q * 2 ^ nat (- s))
         in if 2 ^ 1024 \<le> v then PosInf else Fin v))"

text \<open>\<open>parseFloat\<close>: NaN when there is no literal, else the double nearest to its value.\<close>

definition parseFloat :: "js_string \<Rightarrow> number" where
  "parseFloat s =
     (case StrDecimalLiteral s of
        NoLiteral \<Rightarrow> NaN
      | InfinityLiteral neg \<Rightarrow> (if neg then NegInf else PosInf)
      | DecimalLiteral neg m k \<Rightarrow>
          (let x = (if 0 \<le> k then toDouble (m * 10 ^ nat k) 1
                    else toDouble m (10 ^ nat (- k)))
           in if neg then negate x else x))"

text \<open>The decimal digits of a natural number, as a template literal prints \<open>Date.now()\<close>.\<close>

fun decimal :: "nat \<Rightarrow> string" where
  "decimal n = (if n < 10 then [char_of (48 + n)] else decimal (n div 10) @ [char_of (48 + n mod 10)])"

declare decimal.simps [simp del]

section \<open>MusicGenerationPanel.tsx\<close>

record GeneratedTrack =
  t_id :: string
  t_prompt :: js_string
  t_style :: string
  t_mood :: string
  t_duration :: number
  t_audioUrl :: "string option"
  t_createdAt :: string

record MusicGenerationPanel =
  mp_prompt :: js_string
  mp_selectedStyle :: string
  mp_selectedMood :: string
  mp_duration :: number
  mp_isGenerating :: bool
  mp_error :: "string option"
  mp_tracks :: "GeneratedTrack list"
  mp_currentTrack :: "GeneratedTrack option"
  mp_isPlaying :: bool
  mp_currentTime :: number
  mp_volume :: number
  mp_audioRef :: "HTMLAudioElement option"

text \<open>
  \<open>handleGenerate\<close> has no \<open>await\<close>, so it runs to its end in one go. \<open>now\<close> is
  \<open>Date.now()\<close> and \<open>createdAt\<close> is \<open>new Date().toISOString()\<close>. Nothing in the
  \<open>try\<close> block throws.
\<close>

definition MusicGenerationPanel_handleGenerate ::
    "nat \<Rightarrow> string \<Rightarrow> MusicGenerationPanel \<Rightarrow> MusicGenerationPanel" where
  "MusicGenerationPanel_handleGenerate now createdAt st =
     (if trim (mp_prompt st) = [] then st
      else
        (let st1 = st\<lparr>mp_isGenerating := True, mp_error := None\<rparr>;
             newTrack = \<lparr>t_id = ''track-'' @ decimal now, t_prompt = mp_prompt st,
               t_style = mp_selectedStyle st, t_mood = mp_selectedMood st,
               t_duration = mp_duration st, t_audioUrl = None, t_createdAt = createdAt\<rparr>;
             st2 = st1\<lparr>mp_tracks := newTrack # mp_tracks st1, mp_prompt := []\<rparr>
         in st2\<lparr>mp_isGenerating := False\<rparr>))"

text \<open>The \<open>disabled\<close> attribute of the Generate Music button.\<close>

definition MusicGenerationPanel_generateDisabled :: "MusicGenerationPanel \<Rightarrow> bool" where
  "MusicGenerationPanel_generateDisabled st = (mp_isGenerating st \<or> trim (mp_prompt st) = [])"

text \<open>\<open>handlePlayTrack\<close>: the promise of \<open>play()\<close> is dropped.\<close>

definition handlePlayTrack ::
    "promise \<Rightarrow> GeneratedTrack \<Rightarrow> MusicGenerationPanel \<Rightarrow> MusicGenerationPanel" where
  "handlePlayTrack pr track st =
     (if map_option t_id (mp_currentTrack st) = Some (t_id track) \<and> mp_isPlaying st
      then st\<lparr>mp_audioRef := map_option pause (mp_audioRef st), mp_isPlaying := False\<rparr>
      else
        (case mp_audioRef st of
           None \<Rightarrow> st
         | Some audio \<Rightarrow>
             if truthy (t_audioUrl track) then
               (let other = (map_option t_id (mp_currentTrack st) \<noteq> Some (t_id track));
                    audio1 = (if other then set_src (the (t_audioUrl track)) audio else audio);
                    st1 = (if other then st\<lparr>mp_currentTime := Fin 0\<rparr> else st)
                in st1\<lparr>mp_currentTrack := Some track, mp_audioRef := Some (play pr audio1),
                     mp_isPlaying := True\<rparr>)
             else st))"



section \<open>SoundEffectsPanel.tsx\<close>

record GeneratedSound =
  s_id :: string
  s_prompt :: js_string
  s_category :: string
  s_duration :: number
  s_audioUrl :: "string option"
  s_createdAt :: string

record SoundEffectsPanel =
  sp_prompt :: js_string
  sp_category :: string
  sp_duration :: number
  sp_isGenerating :: bool
  sp_error :: "string option"
  sp_sounds :: "GeneratedSound list"
  sp_playingSoundId :: "string option"
  sp_audioRef :: "HTMLAudioElement option"

definition SoundEffectsPanel_handleGenerate ::
    "nat \<Rightarrow> string \<Rightarrow> SoundEffectsPanel \<Rightarrow> SoundEffectsPanel" where
  "SoundEffectsPanel_handleGenerate now createdAt st =
     (if trim (sp_prompt st) = [] then st
      else
        (let st1 = st\<lparr>sp_isGenerating := True, sp_error := None\<rparr>;
             newSound = \<lparr>s_id = ''sfx-'' @ decimal now, s_prompt = sp_prompt st,
               s_category = sp_category st, s_duration = sp_duration st,
               s_audioUrl = None, s_createdAt = createdAt\<rparr>;
             st2 = st1\<lparr>sp_sounds := newSound # sp_sounds st1, sp_prompt := []\<rparr>
         in st2\<lparr>sp_isGenerating := False\<rparr>))"

definition SoundEffectsPanel_generateDisabled :: "SoundEffectsPanel \<Rightarrow> bool" where
  "SoundEffectsPanel_generateDisabled st = (sp_isGenerating st \<or> trim (sp_prompt st) = [])"

definition handlePlaySound ::
    "promise \<Rightarrow> GeneratedSound \<Rightarrow> SoundEffectsPanel \<Rightarrow> SoundEffectsPanel" where
  "handlePlaySound pr sound st =
     (if sp_playingSoundId st = Some (s_id sound)
      then st\<lparr>sp_audioRef := map_option pause (sp_audioRef st), sp_playingSoundId := None\<rparr>
      else
        (case sp_audioRef st of
           None \<Rightarrow> st
         | Some audio \<Rightarrow>
             if truthy (s_audioUrl sound) then
               st\<lparr>sp_audioRef := Some (play pr (set_src (the (s_audioUrl sound)) audio)),
                  sp_playingSoundId := Some (s_id sound)\<rparr>
             else st))"

section \<open>VoiceControlPanel.tsx\<close>

datatype voice_category = Cloned | Premade | Generated

record VoiceSettings =
  stability :: number
  similarityBoost :: number
  style :: number
  useSpeakerBoost :: bool

record VoiceProfile =
  v_id :: string
  v_name :: js_string
  v_characterName :: "js_string option"
  v_description :: "string option"
  v_previewUrl :: "string option"
  v_category :: voice_category
  v_settings :: VoiceSettings

record VoiceControlPanel =
  vp_voices :: "VoiceProfile list"
  vp_isLoading :: bool
  vp_error :: "string option"
  vp_showCloneDialog :: bool
  vp_playingVoiceId :: "string option"
  vp_cloneName :: js_string
  vp_cloneCharacter :: js_string
  vp_isCloning :: bool
  vp_audioRef :: "HTMLAudioElement option"

definition handleCloneVoice :: "nat \<Rightarrow> VoiceControlPanel \<Rightarrow> VoiceControlPanel" where
  "handleCloneVoice now st =
     (if trim (vp_cloneName st) = [] then st
      else
        (let st1 = st\<lparr>vp_isCloning := True\<rparr>;
             newVoice = \<lparr>v_id = ''voice-'' @ decimal now, v_name = vp_cloneName st,
               v_characterName = (if vp_cloneCharacter st = [] then None
                                  else Some (vp_cloneCharacter st)),
               v_description = None, v_previewUrl = None, v_category = Cloned,
               v_settings = \<lparr>stability = Fin (1 / 2), similarityBoost = Fin (3 / 4),
                 style = Fin 0, useSpeakerBoost = True\<rparr>\<rparr>;
             st2 = st1\<lparr>vp_voices := vp_voices st1 @ [newVoice], vp_showCloneDialog := False,
               vp_cloneName := [], vp_cloneCharacter := []\<rparr>
         in st2\<lparr>vp_isCloning := False\<rparr>))"

text \<open>The \<open>disabled\<close> attribute of the Clone Voice button of the dialog.\<close>

definition cloneDisabled :: "VoiceControlPanel \<Rightarrow> bool" where
  "cloneDisabled st = (vp_isCloning st \<or> trim (vp_cloneName st) = [])"

section \<open>The panels as first rendered\<close>

text \<open>
  The initial values of the \<open>useState\<close> calls; the ref holds the panel's own hidden
  \<open>audio\<close> element once it is mounted.
\<close>

definition initialMusicGenerationPanel :: MusicGenerationPanel where
  "initialMusicGenerationPanel =
     \<lparr>mp_prompt = [], mp_selectedStyle = ''cinematic'', mp_selectedMood = ''tense'',
      mp_duration = Fin 30, mp_isGenerating = False, mp_error = None, mp_tracks = [],
      mp_currentTrack = None, mp_isPlaying = False, mp_currentTime = Fin 0,
      mp_volume = Fin (7 / 10), mp_audioRef = Some newAudio\<rparr>"

definition initialSoundEffectsPanel :: SoundEffectsPanel where
  "initialSoundEffectsPanel =
     \<lparr>sp_prompt = [], sp_category = ''nature'', sp_duration = Fin 3, sp_isGenerating = False,
      sp_error = None, sp_sounds = [], sp_playingSoundId = None, sp_audioRef = Some newAudio\<rparr>"

definition initialVoiceControlPanel :: VoiceControlPanel where
  "initialVoiceControlPanel =
     \<lparr>vp_voices = [], vp_isLoading = False, vp_error = None, vp_showCloneDialog = False,
      vp_playingVoiceId = None, vp_cloneName = [], vp_cloneCharacter = [],
      vp_isCloning = False, vp_audioRef = Some newAudio\<rparr>"

section \<open>States used as examples\<close>

text \<open>
  The provider after its mount effect, and after the call
  \<open>playAudio('test-id', 'http://example.com/audio.mp3')\<close> of the test suite; a track and
  a sound that have an audio URL, and the panels after playing them.
\<close>

definition mountedProvider :: AudioProvider where
  "mountedProvider = after (mountEffect initialProvider)"

definition playingProvider :: AudioProvider where
  "playingProvider =
     after (playAudio Fulfilled ''test-id'' ''http://example.com/audio.mp3'' mountedProvider)"

definition testTrack :: GeneratedTrack where
  "testTrack = \<lparr>t_id = ''track-1'', t_prompt = js ''Intense chase scene'',
     t_style = ''cinematic'',
     t_mood = ''tense'', t_duration = Fin 30,
     t_audioUrl = Some ''http://example.com/audio.mp3'', t_createdAt = []\<rparr>"

definition playingMusicPanel :: MusicGenerationPanel where
  "playingMusicPanel = handlePlayTrack Fulfilled testTrack initialMusicGenerationPanel"

definition testSound :: GeneratedSound where
  "testSound = \<lparr>s_id = ''sfx-1'', s_prompt = js ''Footsteps on gravel'',
     s_category = ''nature'',
     s_duration = Fin 3, s_audioUrl = Some ''http://example.com/audio.mp3'', s_createdAt = []\<rparr>"

definition playingSoundPanel :: SoundEffectsPanel where
  "playingSoundPanel = handlePlaySound Fulfilled testSound initialSoundEffectsPanel"

text \<open>
  A prompt of white space only (space, tab, no-break space, ideographic space, em space,
  line separator, U+FEFF), typed into panels that already list a track, a sound and the
  first voice of the mock data.
\<close>

definition whiteSpacePrompt :: js_string where
  "whiteSpacePrompt = [0x0020, 0x0009, 0x00A0, 0x3000, 0x2003, 0x2028, 0xFEFF]"

definition typingMusicPanel :: MusicGenerationPanel where
  "typingMusicPanel = playingMusicPanel\<lparr>mp_tracks := [testTrack], mp_prompt := whiteSpacePrompt\<rparr>"

definition typingSoundPanel :: SoundEffectsPanel where
  "typingSoundPanel = playingSoundPanel\<lparr>sp_sounds := [testSound], sp_prompt := whiteSpacePrompt\<rparr>"

definition heroVoice :: VoiceProfile where
  "heroVoice = \<lparr>v_id = ''voice-1'', v_name = js ''Hero Voice'',
     v_characterName = Some (js ''Hero''),
     v_description = Some ''Deep, confident male voice'', v_previewUrl = None,
     v_category = Cloned,
     v_settings = \<lparr>stability = Fin (1 / 2), similarityBoost = Fin (3 / 4), style = Fin 0,
       useSpeakerBoost = True\<rparr>\<rparr>"

definition cloningVoicePanel :: VoiceControlPanel where
  "cloningVoicePanel = initialVoiceControlPanel\<lparr>vp_voices := [heroVoice],
     vp_showCloneDialog := True, vp_cloneName := whiteSpacePrompt,
     vp_cloneCharacter := js ''Hero''\<rparr>"

section \<open>Auxiliary facts\<close>

lemmas ops_defs = mountEffect_def playAudio_def pauseAudio_def stopAudio_def togglePlayPause_def
  seekTo_def setVolume_def handleTimeUpdate_def handleDurationChange_def handleEnded_def
  handlePlay_def handlePause_def mediaProgress_def

lemma all_dropWhile: "(\<forall>x\<in>set (dropWhile P xs). P x) = (\<forall>x\<in>set xs. P x)"
  by (induction xs) auto

lemma trim_empty_iff: "trim s = [] \<longleftrightarrow> (\<forall>c\<in>set s. isWhiteSpace c)"
  by (simp add: trim_def dropWhile_eq_Nil_conv all_dropWhile)

lemma reachable_unmounted: "reachable p \<Longrightarrow> audioRef p = None \<Longrightarrow> state p = initialState"
proof (induction rule: reachable.induct)
  case r_init
  then show ?case by (simp add: initialProvider_def)
qed (auto simp: ops_defs Let_def split: option.splits sum.splits if_splits)

lemma reachable_playing_mounted:
  "reachable p \<Longrightarrow> isPlaying (state p) \<Longrightarrow> \<exists>audio. audioRef p = Some audio"
  using reachable_unmounted [of p] by (cases "audioRef p") (auto simp: initialState_def)

lemma reachable_url_mounted:
  "reachable p \<Longrightarrow> currentlyPlayingUrl (state p) = Some url \<Longrightarrow> \<exists>audio. audioRef p = Some audio"
  using reachable_unmounted [of p] by (cases "audioRef p") (auto simp: initialState_def)


lemma mountedProvider_eq:
  "mountedProvider = \<lparr>state = initialState,
     audioRef = Some (newAudio\<lparr>el_volume := Fin (7 / 10)\<rparr>), console_error = []\<rparr>"
  by (simp add: mountedProvider_def mountEffect_def initialProvider_def initialState_def
      set_volume_def)

lemma mountedProvider_audioRef:
  "audioRef mountedProvider = Some (newAudio\<lparr>el_volume := Fin (7 / 10)\<rparr>)"
  by (simp add: mountedProvider_eq)

lemma playingProvider_eq:
  "playingProvider = \<lparr>state = initialState\<lparr>currentlyPlayingId := Some ''test-id'',
       currentlyPlayingUrl := Some ''http://example.com/audio.mp3'', isPlaying := True\<rparr>,
     audioRef = Some (newAudio\<lparr>src := ''http://example.com/audio.mp3'', paused := False,
       el_volume := Fin (7 / 10), loadCalls := 1\<rparr>), console_error = []\<rparr>"
  by (simp add: playingProvider_def mountedProvider_eq playAudio_def initialState_def
      play_def load_def set_src_def load_algorithm_def newAudio_def Let_def)

lemma reachable_mountedProvider: "reachable mountedProvider"
  unfolding mountedProvider_def by (rule r_mount) (rule r_init)

lemma reachable_playingProvider: "reachable playingProvider"
  unfolding playingProvider_def by (rule r_playAudio) (rule reachable_mountedProvider)

lemma playingMusicPanel_eq:
  "playingMusicPanel = initialMusicGenerationPanel\<lparr>mp_currentTrack := Some testTrack,
     mp_audioRef := Some (newAudio\<lparr>src := ''http://example.com/audio.mp3'', paused := False\<rparr>),
     mp_isPlaying := True\<rparr>"
  by (simp add: playingMusicPanel_def handlePlayTrack_def initialMusicGenerationPanel_def
      testTrack_def play_def set_src_def load_algorithm_def newAudio_def Let_def)

lemma playingSoundPanel_eq:
  "playingSoundPanel = initialSoundEffectsPanel\<lparr>sp_playingSoundId := Some ''sfx-1'',
     sp_audioRef := Some (newAudio\<lparr>src := ''http://example.com/audio.mp3'', paused := False\<rparr>)\<rparr>"
  by (simp add: playingSoundPanel_def handlePlaySound_def initialSoundEffectsPanel_def
      testSound_def play_def set_src_def load_algorithm_def newAudio_def Let_def)






text \<open>\<open>parseFloat\<close> at some strings: the doubles of 0.3, 0.5 and 1.00000000000000001.\<close>

lemmas scan_defs = StrDecimalLiteral_def js_def cu_def isWhiteSpace_def isDigit_def
  digitsValue_def digitValue_def parseExponent_def Let_def


lemma bitLength_5: "bitLength 5 = 3"
  by (simp add: bitLength.simps)

lemma bitLength_10: "bitLength 10 = 4"
  by (simp add: bitLength.simps)





lemma StrDecimalLiteral_0_5: "StrDecimalLiteral (js ''0.5'') = DecimalLiteral False 5 (- 1)"
  by (simp add: scan_defs)

lemma toDouble_5_10: "toDouble 5 10 = Fin (1 / 2)"
  by (simp add: toDouble_def Let_def bitLength_5 bitLength_10 roundHalfEven_def)

lemma parseFloat_0_5: "parseFloat (js ''0.5'') = Fin (1 / 2)"
  by (simp add: parseFloat_def StrDecimalLiteral_0_5 toDouble_5_10)

lemma bitLength_17: "bitLength 100000000000000001 = 57 \<and> bitLength 100000000000000000 = 57"
  by (simp add: bitLength.simps)

lemma parseFloat_rounds_to_1: "parseFloat (js ''1.00000000000000001'') = Fin 1"
proof -
  have "StrDecimalLiteral (js ''1.00000000000000001'')
          = DecimalLiteral False 100000000000000001 (- 17)"
    by (simp add: scan_defs)
  moreover have "toDouble 100000000000000001 (10 ^ 17) = Fin 1"
    by (simp add: toDouble_def Let_def bitLength_17 roundHalfEven_def)
  ultimately show ?thesis
    by (simp add: parseFloat_def)
qed


section \<open>The claims\<close>



text \<open>
  Claim C2. When the track \<open>id\<close> is the current one and is playing,
  \<open>togglePlayPause(id, url)\<close> is \<open>pauseAudio()\<close>: the element is paused, \<open>isPlaying\<close>
  becomes false and \<open>currentlyPlayingId\<close> stays \<open>id\<close>. The panels' own handlers
  \<open>handlePlayTrack\<close> and \<open>handlePlaySound\<close> pause their element too when called on the
  track or sound marked as playing.
\<close>

theorem toggle_active_pauses:
  assumes "reachable p" and "currentlyPlayingId (state p) = Some id'" and "isPlaying (state p)"
    and "map_option t_id (mp_currentTrack m) = Some (t_id track)" and "mp_isPlaying m"
    and "sp_playingSoundId s = Some (s_id sound)"
  shows "togglePlayPause pr id' url p = pauseAudio p
         \<and> (\<exists>audio p'. audioRef p = Some audio \<and> pauseAudio p = Returned p'
              \<and> audioRef p' = Some (pause audio) \<and> paused (pause audio)
              \<and> \<not> isPlaying (state p') \<and> currentlyPlayingId (state p') = Some id')
         \<and> handlePlayTrack pr track m =
              m\<lparr>mp_audioRef := map_option pause (mp_audioRef m), mp_isPlaying := False\<rparr>
         \<and> handlePlaySound pr sound s =
              s\<lparr>sp_audioRef := map_option pause (sp_audioRef s), sp_playingSoundId := None\<rparr>"
proof -
  from assms(1,3) obtain audio where a: "audioRef p = Some audio"
    using reachable_playing_mounted by blast
  have t: "togglePlayPause pr id' url p = pauseAudio p"
    using assms(2,3) by (simp add: togglePlayPause_def)
  have pa: "\<exists>audio p'. audioRef p = Some audio \<and> pauseAudio p = Returned p'
              \<and> audioRef p' = Some (pause audio) \<and> paused (pause audio)
              \<and> \<not> isPlaying (state p') \<and> currentlyPlayingId (state p') = Some id'"
    using a assms(2) by (simp add: pauseAudio_def pause_def)
  have ht: "handlePlayTrack pr track m =
              m\<lparr>mp_audioRef := map_option pause (mp_audioRef m), mp_isPlaying := False\<rparr>"
    using assms(4,5) by (simp add: handlePlayTrack_def)
  have hs: "handlePlaySound pr sound s =
              s\<lparr>sp_audioRef := map_option pause (sp_audioRef s), sp_playingSoundId := None\<rparr>"
    using assms(6) by (simp add: handlePlaySound_def)
  from t pa ht hs show ?thesis by blast
qed

theorem toggle_active_pauses_witness:
  "reachable playingProvider
   \<and> currentlyPlayingId (state playingProvider) = Some ''test-id''
   \<and> isPlaying (state playingProvider)
   \<and> map_option t_id (mp_currentTrack playingMusicPanel) = Some (t_id testTrack)
   \<and> mp_isPlaying playingMusicPanel
   \<and> sp_playingSoundId playingSoundPanel = Some (s_id testSound)
   \<and> togglePlayPause Fulfilled ''test-id'' ''http://example.com/audio.mp3'' playingProvider
       = pauseAudio playingProvider
   \<and> \<not> isPlaying (state (after (pauseAudio playingProvider)))
   \<and> currentlyPlayingId (state (after (pauseAudio playingProvider))) = Some ''test-id''
   \<and> \<not> mp_isPlaying (handlePlayTrack Fulfilled testTrack playingMusicPanel)
   \<and> map_option paused (mp_audioRef (handlePlayTrack Fulfilled testTrack playingMusicPanel)) = Some True
   \<and> sp_playingSoundId (handlePlaySound Fulfilled testSound playingSoundPanel) = None"
proof -
  have h2: "currentlyPlayingId (state playingProvider) = Some ''test-id''"
    and h3: "isPlaying (state playingProvider)"
    by (simp_all add: playingProvider_eq)
  have h4: "map_option t_id (mp_currentTrack playingMusicPanel) = Some (t_id testTrack)"
    and h5: "mp_isPlaying playingMusicPanel"
    by (simp_all add: playingMusicPanel_eq)
  have h6: "sp_playingSoundId playingSoundPanel = Some (s_id testSound)"
    by (simp add: playingSoundPanel_eq testSound_def)
  from toggle_active_pauses [OF reachable_playingProvider h2 h3 h4 h5 h6,
      of Fulfilled "''http://example.com/audio.mp3''"]
  show ?thesis
    using reachable_playingProvider h2 h3 h4 h5 h6
    by (auto simp: pause_def playingMusicPanel_eq)
qed

text \<open>
  Claim C3. In every reachable state of the provider, two distinct ids are never both
  reported as currently playing.
\<close>

theorem at_most_one_playing:
  assumes "reachable p" and "id1 \<noteq> id2"
  shows "\<not> (isCurrentlyPlaying p id1 \<and> isCurrentlyPlaying p id2)"
  using assms(2) by (auto simp: isCurrentlyPlaying_def)

theorem at_most_one_playing_witness:
  "reachable playingProvider \<and> ''test-id'' \<noteq> ''other-id''
   \<and> isCurrentlyPlaying playingProvider ''test-id''
   \<and> \<not> isCurrentlyPlaying playingProvider ''other-id''"
proof -
  have ne: "''test-id'' \<noteq> ''other-id''" by simp
  have t: "isCurrentlyPlaying playingProvider ''test-id''"
    by (simp add: isCurrentlyPlaying_def playingProvider_eq)
  from at_most_one_playing [OF reachable_playingProvider ne] t reachable_playingProvider
  show ?thesis by blast
qed

text \<open>
  Claim C4. \<open>playAudio\<close> always returns, in every state and whatever becomes of the
  promise. When the promise of \<open>play()\<close> is rejected, the reason is written to the console
  and the state still records the track as playing.
\<close>

theorem playAudio_rejection_caught:
  assumes "audioRef p = Some audio"
  shows "(\<forall>pr q. \<exists>q'. playAudio pr id' url q = Returned q')
         \<and> (\<exists>p'. playAudio (Rejected err) id' url p = Returned p'
              \<and> console_error p' = console_error p @ [(''Failed to play audio:'', err)]
              \<and> currentlyPlayingId (state p') = Some id'
              \<and> currentlyPlayingUrl (state p') = Some url
              \<and> isPlaying (state p'))"
proof -
  have total: "\<exists>q'. playAudio pr id' url q = Returned q'" for pr q
    by (simp add: playAudio_def Let_def split: option.splits)
  have rej: "\<exists>p'. playAudio (Rejected err) id' url p = Returned p'
              \<and> console_error p' = console_error p @ [(''Failed to play audio:'', err)]
              \<and> currentlyPlayingId (state p') = Some id'
              \<and> currentlyPlayingUrl (state p') = Some url
              \<and> isPlaying (state p')"
    using assms by (simp add: playAudio_def Let_def)
  from total rej show ?thesis by blast
qed

theorem playAudio_rejection_caught_witness:
  "audioRef mountedProvider = Some (newAudio\<lparr>el_volume := Fin (7 / 10)\<rparr>)
   \<and> console_error (after (playAudio (Rejected (DOMException ''NotAllowedError''))
         ''test-id'' ''http://example.com/audio.mp3'' mountedProvider))
       = [(''Failed to play audio:'', DOMException ''NotAllowedError'')]
   \<and> isPlaying (state (after (playAudio (Rejected (DOMException ''NotAllowedError''))
         ''test-id'' ''http://example.com/audio.mp3'' mountedProvider)))
   \<and> currentlyPlayingId (state (after (playAudio (Rejected (DOMException ''NotAllowedError''))
         ''test-id'' ''http://example.com/audio.mp3'' mountedProvider))) = Some ''test-id''"
  using playAudio_rejection_caught [OF mountedProvider_audioRef,
      of "''test-id''" "''http://example.com/audio.mp3''" "DOMException ''NotAllowedError''"]
    mountedProvider_audioRef
  by (auto simp: mountedProvider_eq)

text \<open>
  Claim C5. With a URL other than the current one, \<open>playAudio(id2, url2)\<close> assigns
  \<open>url2\<close> to the element's \<open>src\<close>, calls \<open>load()\<close> once (the element is rewound) and
  then \<open>play()\<close>, and the state records \<open>id2\<close> and \<open>url2\<close>. \<open>pauseAudio\<close> and
  \<open>stopAudio\<close> pause the element that was there, and change nothing else of it but,
  for \<open>stopAudio\<close>, its position, which becomes 0.
\<close>

theorem replace_source:
  assumes "audioRef p = Some audio" and "currentlyPlayingUrl (state p) \<noteq> Some url2"
  shows "(\<exists>p'. playAudio pr id2 url2 p = Returned p'
            \<and> audioRef p' = Some (play pr (load (set_src url2 audio)))
            \<and> src (play pr (load (set_src url2 audio))) = url2
            \<and> loadCalls (play pr (load (set_src url2 audio))) = loadCalls audio + 1
            \<and> el_currentTime (play pr (load (set_src url2 audio))) = Fin 0
            \<and> currentlyPlayingId (state p') = Some id2
            \<and> currentlyPlayingUrl (state p') = Some url2)
         \<and> (\<exists>p'. pauseAudio p = Returned p' \<and> audioRef p' = Some (pause audio)
               \<and> paused (pause audio))
         \<and> (\<exists>p'. stopAudio p = Returned p'
               \<and> audioRef p' = Some ((pause audio)\<lparr>el_currentTime := Fin 0\<rparr>)
               \<and> paused ((pause audio)\<lparr>el_currentTime := Fin 0\<rparr>)
               \<and> el_currentTime ((pause audio)\<lparr>el_currentTime := Fin 0\<rparr>) = Fin 0
               \<and> currentTime (state p') = Fin 0)"
proof -
  have el: "src (play pr (load (set_src url2 audio))) = url2
            \<and> loadCalls (play pr (load (set_src url2 audio))) = loadCalls audio + 1
            \<and> el_currentTime (play pr (load (set_src url2 audio))) = Fin 0"
    by (simp add: play_def load_def set_src_def load_algorithm_def split: promise.splits)
  have pl: "\<exists>p'. playAudio pr id2 url2 p = Returned p'
            \<and> audioRef p' = Some (play pr (load (set_src url2 audio)))
            \<and> currentlyPlayingId (state p') = Some id2
            \<and> currentlyPlayingUrl (state p') = Some url2"
    using assms by (simp add: playAudio_def Let_def)
  have pa: "\<exists>p'. pauseAudio p = Returned p' \<and> audioRef p' = Some (pause audio)
               \<and> paused (pause audio)"
    using assms(1) by (simp add: pauseAudio_def pause_def)
  have st: "\<exists>p'. stopAudio p = Returned p'
               \<and> audioRef p' = Some ((pause audio)\<lparr>el_currentTime := Fin 0\<rparr>)
               \<and> paused ((pause audio)\<lparr>el_currentTime := Fin 0\<rparr>)
               \<and> el_currentTime ((pause audio)\<lparr>el_currentTime := Fin 0\<rparr>) = Fin 0
               \<and> currentTime (state p') = Fin 0"
    using assms(1) by (simp add: stopAudio_def set_currentTime_def pause_def)
  from el pl pa st show ?thesis by blast
qed

theorem replace_source_witness:
  "audioRef playingProvider = Some (newAudio\<lparr>src := ''http://example.com/audio.mp3'',
       paused := False, el_volume := Fin (7 / 10), loadCalls := 1\<rparr>)
   \<and> currentlyPlayingUrl (state playingProvider) \<noteq> Some ''http://example.com/other.mp3''
   \<and> map_option src (audioRef (after (playAudio Fulfilled ''other-id''
         ''http://example.com/other.mp3'' playingProvider))) = Some ''http://example.com/other.mp3''
   \<and> map_option loadCalls (audioRef (after (playAudio Fulfilled ''other-id''
         ''http://example.com/other.mp3'' playingProvider))) = Some 2
   \<and> currentlyPlayingId (state (after (playAudio Fulfilled ''other-id''
         ''http://example.com/other.mp3'' playingProvider))) = Some ''other-id''
   \<and> map_option paused (audioRef (after (pauseAudio playingProvider))) = Some True
   \<and> audioRef (after (stopAudio playingProvider)) =
       Some (newAudio\<lparr>src := ''http://example.com/audio.mp3'', paused := True,
         el_currentTime := Fin 0, el_volume := Fin (7 / 10), loadCalls := 1\<rparr>)"
proof -
  have h1: "audioRef playingProvider = Some (newAudio\<lparr>src := ''http://example.com/audio.mp3'',
       paused := False, el_volume := Fin (7 / 10), loadCalls := 1\<rparr>)"
    by (simp add: playingProvider_eq)
  have h2: "currentlyPlayingUrl (state playingProvider) \<noteq> Some ''http://example.com/other.mp3''"
    by (simp add: playingProvider_eq)
  from replace_source [OF h1 h2, of Fulfilled "''other-id''"] h1 h2
  show ?thesis
    by (auto simp: pause_def newAudio_def)
qed

text \<open>
  Claim C6. When the prompt (or the voice name) has white space only, the empty string
  included, \<open>handleGenerate\<close> of the music panel, \<open>handleGenerate\<close> of the sound effects
  panel and \<open>handleCloneVoice\<close> leave their panel as it is, the lists of tracks, sounds and
  voices with it, and the three submit buttons are disabled. White space is every code
  unit that \<open>trim\<close> strips.
\<close>

theorem whitespace_input_noop:
  assumes "\<forall>c\<in>set (mp_prompt m). isWhiteSpace c"
    and "\<forall>c\<in>set (sp_prompt s). isWhiteSpace c"
    and "\<forall>c\<in>set (vp_cloneName v). isWhiteSpace c"
  shows "MusicGenerationPanel_handleGenerate now createdAt m = m
         \<and> SoundEffectsPanel_handleGenerate now createdAt s = s
         \<and> handleCloneVoice now v = v
         \<and> MusicGenerationPanel_generateDisabled m
         \<and> SoundEffectsPanel_generateDisabled s
         \<and> cloneDisabled v"
  using assms
  by (simp add: MusicGenerationPanel_handleGenerate_def SoundEffectsPanel_handleGenerate_def
      handleCloneVoice_def MusicGenerationPanel_generateDisabled_def
      SoundEffectsPanel_generateDisabled_def cloneDisabled_def trim_empty_iff)

theorem whitespace_input_noop_witness:
  "list_all isWhiteSpace whiteSpacePrompt
   \<and> mp_prompt typingMusicPanel = whiteSpacePrompt
   \<and> sp_prompt typingSoundPanel = whiteSpacePrompt
   \<and> vp_cloneName cloningVoicePanel = whiteSpacePrompt
   \<and> MusicGenerationPanel_handleGenerate 1700000000000 ''2023-11-14T22:13:20.000Z''
        typingMusicPanel = typingMusicPanel
   \<and> mp_tracks (MusicGenerationPanel_handleGenerate 1700000000000 ''2023-11-14T22:13:20.000Z''
        typingMusicPanel) = [testTrack]
   \<and> SoundEffectsPanel_handleGenerate 1700000000000 ''2023-11-14T22:13:20.000Z''
        typingSoundPanel = typingSoundPanel
   \<and> sp_sounds (SoundEffectsPanel_handleGenerate 1700000000000 ''2023-11-14T22:13:20.000Z''
        typingSoundPanel) = [testSound]
   \<and> handleCloneVoice 1700000000000 cloningVoicePanel = cloningVoicePanel
   \<and> vp_voices (handleCloneVoice 1700000000000 cloningVoicePanel) = [heroVoice]
   \<and> MusicGenerationPanel_generateDisabled typingMusicPanel
   \<and> SoundEffectsPanel_generateDisabled typingSoundPanel
   \<and> cloneDisabled cloningVoicePanel"
proof -
  have ws: "\<forall>c\<in>set whiteSpacePrompt. isWhiteSpace c"
    by (simp add: whiteSpacePrompt_def isWhiteSpace_def)
  have p1: "mp_prompt typingMusicPanel = whiteSpacePrompt"
    and t1: "mp_tracks typingMusicPanel = [testTrack]"
    by (simp_all add: typingMusicPanel_def)
  have p2: "sp_prompt typingSoundPanel = whiteSpacePrompt"
    and t2: "sp_sounds typingSoundPanel = [testSound]"
    by (simp_all add: typingSoundPanel_def)
  have p3: "vp_cloneName cloningVoicePanel = whiteSpacePrompt"
    and t3: "vp_voices cloningVoicePanel = [heroVoice]"
    by (simp_all add: cloningVoicePanel_def)
  have h1: "\<forall>c\<in>set (mp_prompt typingMusicPanel). isWhiteSpace c"
    using ws by (simp only: p1)
  have h2: "\<forall>c\<in>set (sp_prompt typingSoundPanel). isWhiteSpace c"
    using ws by (simp only: p2)
  have h3: "\<forall>c\<in>set (vp_cloneName cloningVoicePanel). isWhiteSpace c"
    using ws by (simp only: p3)
  from whitespace_input_noop [OF h1 h2 h3, of 1700000000000 "''2023-11-14T22:13:20.000Z''"]
    ws p1 p2 p3 t1 t2 t3
  show ?thesis
    by (simp add: list_all_iff)
qed

text \<open>
  Claim C7. In every state of the provider, \<open>isCurrentlyPlaying(id)\<close> holds exactly when
  \<open>currentlyPlayingId\<close> is \<open>id\<close> and \<open>isPlaying\<close> is true, and under that provider
  \<open>useAudioPlayer(id, url)\<close> returns \<open>isPlaying = isCurrentlyPlaying(id)\<close> and
  \<open>isActive = (currentlyPlayingId === id)\<close>.
\<close>

theorem playing_status_derived:
  "isCurrentlyPlaying p id' = (currentlyPlayingId (state p) = Some id' \<and> isPlaying (state p))
   \<and> (\<exists>r. useAudioPlayer (Some p) id' url = Inr r
        \<and> pl_isPlaying r = isCurrentlyPlaying p id'
        \<and> pl_isActive r = (currentlyPlayingId (state p) = Some id'))"
  by (simp add: isCurrentlyPlaying_def useAudioPlayer_def useAudio_def Let_def)

text \<open>
  Claim C8. Outside a provider \<open>useAudio\<close> throws an \<open>Error\<close> with the message
  \<open>useAudio must be used within an AudioProvider\<close>; inside one it returns the context
  value.
\<close>

theorem useAudio_provider:
  "useAudio None = Inl (Error ''useAudio must be used within an AudioProvider'')
   \<and> useAudio (Some c) = Inr c"
  by (simp add: useAudio_def)

text \<open>
  Claim C9. In every reachable state, \<open>stopAudio\<close> returns with \<open>isPlaying\<close> false,
  \<open>currentTime\<close> 0, \<open>currentlyPlayingId\<close> and \<open>currentlyPlayingUrl\<close> null, and with
  the volume and the duration of the state and the volume of the element as they were.
  \<open>pauseAudio\<close> changes no field of the state other than \<open>isPlaying\<close>, which it sets to
  false.
\<close>

theorem stopAudio_frame:
  assumes "reachable p"
  shows "(\<exists>p'. stopAudio p = Returned p'
            \<and> isPlaying (state p') = False \<and> currentTime (state p') = Fin 0
            \<and> currentlyPlayingId (state p') = None \<and> currentlyPlayingUrl (state p') = None
            \<and> volume (state p') = volume (state p) \<and> duration (state p') = duration (state p)
            \<and> map_option el_volume (audioRef p') = map_option el_volume (audioRef p))
         \<and> (\<exists>q. pauseAudio p = Returned q
               \<and> state q = (state p)\<lparr>isPlaying := False\<rparr>
               \<and> map_option el_volume (audioRef q) = map_option el_volume (audioRef p))"
proof (cases "audioRef p")
  case None
  with assms have "state p = initialState"
    by (rule reachable_unmounted)
  with None show ?thesis
    by (simp add: stopAudio_def pauseAudio_def initialState_def)
next
  case (Some audio)
  then show ?thesis
    by (simp add: stopAudio_def pauseAudio_def set_currentTime_def pause_def)
qed

theorem stopAudio_frame_witness:
  "reachable playingProvider
   \<and> state (after (stopAudio playingProvider)) = initialState
   \<and> map_option el_volume (audioRef (after (stopAudio playingProvider))) = Some (Fin (7 / 10))
   \<and> state (after (pauseAudio playingProvider)) = (state playingProvider)\<lparr>isPlaying := False\<rparr>"
  using stopAudio_frame [OF reachable_playingProvider] reachable_playingProvider
  by (auto simp: playingProvider_eq initialState_def)

text \<open>
  Claim C10. When \<open>url\<close> is the current URL and \<open>id2\<close> is not the current id,
  \<open>playAudio(id2, url)\<close> does not assign \<open>src\<close> and does not call \<open>load()\<close>: the
  element keeps its source, its load count and its position, and \<open>currentlyPlayingId\<close>
  becomes \<open>id2\<close>.
\<close>

theorem same_url_other_id:
  assumes "reachable p" and "currentlyPlayingUrl (state p) = Some url"
    and "currentlyPlayingId (state p) \<noteq> Some id2"
  shows "\<exists>audio p'. audioRef p = Some audio \<and> playAudio pr id2 url p = Returned p'
           \<and> audioRef p' = Some (play pr audio)
           \<and> src (play pr audio) = src audio
           \<and> loadCalls (play pr audio) = loadCalls audio
           \<and> el_currentTime (play pr audio) = el_currentTime audio
           \<and> currentlyPlayingId (state p') = Some id2
           \<and> currentlyPlayingUrl (state p') = Some url"
proof -
  from assms(1,2) obtain audio where a: "audioRef p = Some audio"
    using reachable_url_mounted by blast
  have el: "src (play pr audio) = src audio \<and> loadCalls (play pr audio) = loadCalls audio
            \<and> el_currentTime (play pr audio) = el_currentTime audio"
    by (simp add: play_def split: promise.splits)
  have pl: "\<exists>p'. playAudio pr id2 url p = Returned p' \<and> audioRef p' = Some (play pr audio)
           \<and> currentlyPlayingId (state p') = Some id2
           \<and> currentlyPlayingUrl (state p') = Some url"
    using a assms(2) by (simp add: playAudio_def Let_def)
  from a el pl show ?thesis by blast
qed

theorem same_url_other_id_witness:
  "reachable playingProvider
   \<and> currentlyPlayingUrl (state playingProvider) = Some ''http://example.com/audio.mp3''
   \<and> currentlyPlayingId (state playingProvider) \<noteq> Some ''other-id''
   \<and> currentlyPlayingId (state (after (playAudio Fulfilled ''other-id''
        ''http://example.com/audio.mp3'' playingProvider))) = Some ''other-id''
   \<and> map_option src (audioRef (after (playAudio Fulfilled ''other-id''
        ''http://example.com/audio.mp3'' playingProvider))) = Some ''http://example.com/audio.mp3''
   \<and> map_option loadCalls (audioRef (after (playAudio Fulfilled ''other-id''
        ''http://example.com/audio.mp3'' playingProvider))) = Some 1"
proof -
  have h2: "currentlyPlayingUrl (state playingProvider) = Some ''http://example.com/audio.mp3''"
    and h3: "currentlyPlayingId (state playingProvider) \<noteq> Some ''other-id''"
    by (simp_all add: playingProvider_eq)
  from same_url_other_id [OF reachable_playingProvider h2 h3, of Fulfilled]
    reachable_playingProvider h2 h3
  show ?thesis
    by (auto simp: playingProvider_eq)
qed

end
